theory Spec2Isabelle
  imports Main "HOL-Library.Multiset"
begin

section \<open>Values, failures and the state the server actions run in\<close>

text \<open>
  The repository is a Next.js application. The two files under verification are
  \<^verbatim>\<open>src/app/actions/auth.ts\<close> (the server actions \<^verbatim>\<open>signin\<close>, \<^verbatim>\<open>signup\<close>, \<^verbatim>\<open>signout\<close> and
  their zod schemas) and \<^verbatim>\<open>src/lib/dal.ts\<close> (\<^verbatim>\<open>getCurrentUser\<close>, \<^verbatim>\<open>getUserByEmail\<close>,
  \<^verbatim>\<open>getIssues\<close>).

  Every \<^verbatim>\<open>async\<close> function is modelled as a function from the state of the world to the
  way the call completes (a value, or a thrown exception) and the state it leaves.
  A \<^verbatim>\<open>try\<close>/\<^verbatim>\<open>catch\<close> is a case distinction on the completion of the guarded call.
\<close>

datatype exn = Error string

datatype 'a outcome = Returns 'a | Throws exn

text \<open>
  The tables \<^verbatim>\<open>users\<close> and \<^verbatim>\<open>issues\<close> are declared in \<^verbatim>\<open>@/db/schema\<close>, which is not
  among the sources. Their columns are taken from the data model of the specification:
  a user has an id, an email and a stored password digest; an issue has an id, a
  creation time and a reference to its owning user.
\<close>

record user =
  user_id :: nat
  user_email :: string
  user_password :: string

record issue =
  issue_id :: nat
  issue_createdAt :: nat
  issue_userId :: nat

text \<open>A row of \<^verbatim>\<open>db.query.issues.findMany({with: {user: true}})\<close>: the issue and its user.\<close>

record issue_with_user =
  row_issue :: issue
  row_user :: "user option"

record session =
  userId :: nat
  issuedAt :: nat
  expiresAt :: nat

datatype console_arg = Text string | Thrown exn

datatype console_entry = ConsoleLog "console_arg list" | ConsoleError "console_arg list"

text \<open>
  The world: the two tables, the error with which the data store rejects queries while
  it is failing, the session slot of the client, the error with which the session store
  rejects writes while it is failing, the clock, and what the calls wrote to the console
  and where they redirected to (oldest first).
\<close>

record world =
  users :: "user list"
  issues :: "issue list"
  db_fault :: "exn option"
  session_slot :: "session option"
  session_fault :: "exn option"
  clock :: nat
  console :: "console_entry list"
  redirects :: "string list"

text \<open>
  The imported code whose text is not part of the sources: the regular expression behind
  zod's \<^verbatim>\<open>.email()\<close>, the password hasher and verifier of \<^verbatim>\<open>@/lib/auth\<close>, and the
  lifetime of a session.
\<close>

record deps =
  emailRegex :: "string \<Rightarrow> bool"
  hashPassword :: "string \<Rightarrow> string"
  verifyPassword :: "string \<Rightarrow> string \<Rightarrow> bool outcome"
  session_ttl :: nat

definition console_log :: "console_arg list \<Rightarrow> world \<Rightarrow> world" where
  "console_log args w = w\<lparr>console := console w @ [ConsoleLog args]\<rparr>"

definition console_error :: "console_arg list \<Rightarrow> world \<Rightarrow> world" where
  "console_error args w = w\<lparr>console := console w @ [ConsoleError args]\<rparr>"

section \<open>The zod schemas of \<^verbatim>\<open>auth.ts\<close>\<close>

text \<open>
  \<^verbatim>\<open>formData.get(name)\<close> returns the entry of the form under that name: a text, a file,
  or null when the form has no such entry. The cast \<^verbatim>\<open>as string\<close> of the source checks
  nothing, so the schemas see the entry as it is. Past a successful parse the entries are
  text; \<open>as_string\<close> reads them there.
\<close>

datatype FormDataEntryValue = TextEntry string | FileEntry

type_synonym FormData = "string \<Rightarrow> FormDataEntryValue option"

definition as_string :: "FormDataEntryValue option \<Rightarrow> string" where
  "as_string v = (case v of Some (TextEntry s) \<Rightarrow> s | Some FileEntry \<Rightarrow> [] | None \<Rightarrow> [])"

definition is_text :: "FormDataEntryValue option \<Rightarrow> bool" where
  "is_text v = (case v of Some (TextEntry s) \<Rightarrow> True | Some FileEntry \<Rightarrow> False | None \<Rightarrow> False)"

text \<open>
  An issue of a failed parse is a path and a message. \<^verbatim>\<open>z.string()\<close> on a value that is
  not text reports the type error and aborts the parse of the field, without running its
  checks; on text its checks all run and each failing one adds its issue. \<^verbatim>\<open>z.object\<close>
  parses the fields in the order of the object literal and keeps the issues of all of
  them. The \<^verbatim>\<open>.refine\<close> of the object runs after the fields, and only when no field was
  aborted.
\<close>

type_synonym zod_issue = "string list \<times> string"

definition z_min :: "nat \<Rightarrow> string \<Rightarrow> string list \<Rightarrow> string \<Rightarrow> zod_issue list" where
  "z_min n msg path v = (if length v < n then [(path, msg)] else [])"

definition z_email :: "deps \<Rightarrow> string \<Rightarrow> string list \<Rightarrow> string \<Rightarrow> zod_issue list" where
  "z_email D msg path v = (if emailRegex D v then [] else [(path, msg)])"

definition z_string ::
  "string list \<Rightarrow> (string \<Rightarrow> zod_issue list) \<Rightarrow> FormDataEntryValue option \<Rightarrow> zod_issue list" where
  "z_string path checks v =
     (case v of
        Some (TextEntry s) \<Rightarrow> checks s
      | Some FileEntry \<Rightarrow> [(path, ''Expected string, received object'')]
      | None \<Rightarrow> [(path, ''Expected string, received null'')])"

definition SignInSchema ::
  "deps \<Rightarrow> FormDataEntryValue option \<Rightarrow> FormDataEntryValue option \<Rightarrow> zod_issue list" where
  "SignInSchema D email password =
     z_string [''email'']
       (\<lambda>s. z_min 1 ''Email is required'' [''email''] s
            @ z_email D ''Invalid email format'' [''email''] s) email
     @ z_string [''password'']
       (\<lambda>s. z_min 1 ''Password is required'' [''password''] s) password"

definition SignUpSchema ::
  "deps \<Rightarrow> FormDataEntryValue option \<Rightarrow> FormDataEntryValue option \<Rightarrow> FormDataEntryValue option
     \<Rightarrow> zod_issue list" where
  "SignUpSchema D email password confirmPassword =
     z_string [''email'']
       (\<lambda>s. z_min 1 ''Email is required'' [''email''] s
            @ z_email D ''Invalid email format'' [''email''] s) email
     @ z_string [''password'']
       (\<lambda>s. z_min 6 ''Password must be at least 6 characters'' [''password''] s) password
     @ z_string [''confirmPassword'']
       (\<lambda>s. z_min 1 ''Please confirm your password'' [''confirmPassword''] s) confirmPassword
     @ (if is_text email \<and> is_text password \<and> is_text confirmPassword
        then (if password = confirmPassword then []
              else [([''confirmPassword''], ''Passwords don't match'')])
        else [])"

text \<open>
  \<^verbatim>\<open>error.flatten().fieldErrors\<close>: the messages of the issues, grouped by the first element
  of their path, keys in the order of their first issue; an issue with an empty path
  belongs to the form errors and is not part of the field errors.
\<close>

fun push_message :: "string \<Rightarrow> string \<Rightarrow> (string \<times> string list) list \<Rightarrow> (string \<times> string list) list" where
  "push_message k m [] = [(k, [m])]"
| "push_message k m ((k', ms) # rest) =
     (if k = k' then (k', ms @ [m]) # rest else (k', ms) # push_message k m rest)"

fun fieldErrors_from :: "(string \<times> string list) list \<Rightarrow> zod_issue list \<Rightarrow> (string \<times> string list) list" where
  "fieldErrors_from acc [] = acc"
| "fieldErrors_from acc ((path, m) # rest) =
     (case path of
        [] \<Rightarrow> fieldErrors_from acc rest
      | k # _ \<Rightarrow> fieldErrors_from (push_message k m acc) rest)"

definition fieldErrors :: "zod_issue list \<Rightarrow> (string \<times> string list) list" where
  "fieldErrors iss = fieldErrors_from [] iss"

record ActionResponse =
  success :: bool
  message :: string
  errors :: "(string \<times> string list) list option"
  error :: "string option"

text \<open>The entry of a field in the \<^verbatim>\<open>errors\<close> object of a response, if it has one.\<close>

definition errors_of :: "ActionResponse \<Rightarrow> string \<Rightarrow> string list option" where
  "errors_of r k = (case errors r of None \<Rightarrow> None | Some es \<Rightarrow> map_of es k)"

section \<open>The collaborators of \<^verbatim>\<open>@/lib/auth\<close>, \<^verbatim>\<open>@/lib/utils\<close> and \<^verbatim>\<open>next/navigation\<close>\<close>

text \<open>
  Modelled from the spec: \<^verbatim>\<open>mockDelay\<close> of \<^verbatim>\<open>@/lib/utils\<close> is missing from the sources.
  The specification describes it as an artificial-latency helper that only simulates
  network delay; it leaves the world as it is.
\<close>

definition mockDelay :: "nat \<Rightarrow> world \<Rightarrow> world" where
  "mockDelay ms w = w"

text \<open>
  Modelled from the spec: \<^verbatim>\<open>createSession\<close> of \<^verbatim>\<open>@/lib/auth\<close> is missing from the sources.
  Session Store \<^verbatim>\<open>create(userId)\<close>: binds the client's session slot to the user id, with
  the time of issue and the expiry, and overwrites any prior token of that slot. A
  failing session store rejects the call and leaves the slot as it was.
\<close>

definition createSession :: "deps \<Rightarrow> nat \<Rightarrow> world \<Rightarrow> unit outcome \<times> world" where
  "createSession D uid w =
     (case session_fault w of
        Some e \<Rightarrow> (Throws e, w)
      | None \<Rightarrow>
          (Returns (),
           w\<lparr>session_slot :=
                Some \<lparr>userId = uid, issuedAt = clock w, expiresAt = clock w + session_ttl D\<rparr>\<rparr>))"

text \<open>
  Modelled from the spec: \<^verbatim>\<open>getSession\<close> of \<^verbatim>\<open>@/lib/auth\<close> is missing from the sources.
  Session Store \<^verbatim>\<open>resolve\<close>: none if the slot is empty or the session is past its
  expiry; expiry is checked when the session is read. It does not throw.
\<close>

definition getSession :: "world \<Rightarrow> session option" where
  "getSession w =
     (case session_slot w of
        None \<Rightarrow> None
      | Some s \<Rightarrow> (if expiresAt s < clock w then None else Some s))"

text \<open>
  Modelled from the spec: \<^verbatim>\<open>deleteSession\<close> of \<^verbatim>\<open>@/lib/auth\<close> is missing from the sources.
  Session Store \<^verbatim>\<open>destroy()\<close>: clears the client's session slot; destroying an absent
  session is not an error. A failing session store rejects the call and leaves the
  slot as it was.
\<close>

definition deleteSession :: "world \<Rightarrow> unit outcome \<times> world" where
  "deleteSession w =
     (case session_fault w of
        Some e \<Rightarrow> (Throws e, w)
      | None \<Rightarrow> (Returns (), w\<lparr>session_slot := None\<rparr>))"

text \<open>
  Modelled from the spec: \<^verbatim>\<open>createUser\<close> of \<^verbatim>\<open>@/lib/auth\<close> is missing from the sources.
  It hashes the password and inserts a user record with a system-generated id, keyed by
  the email. An email that is already taken makes the creation fail (the result is
  none, the case \<^verbatim>\<open>signup\<close> answers with \<^verbatim>\<open>try again\<close>); a failing data store rejects the
  insert with its error.
\<close>

definition fresh_user_id :: "user list \<Rightarrow> nat" where
  "fresh_user_id us = Suc (fold max (map user_id us) 0)"

definition createUser :: "deps \<Rightarrow> string \<Rightarrow> string \<Rightarrow> world \<Rightarrow> user option outcome \<times> world" where
  "createUser D email password w =
     (case db_fault w of
        Some e \<Rightarrow> (Throws e, w)
      | None \<Rightarrow>
          (if email \<in> set (map user_email (users w)) then (Returns None, w)
           else
             (let u = \<lparr>user_id = fresh_user_id (users w), user_email = email,
                       user_password = hashPassword D password\<rparr>
              in (Returns (Some u), w\<lparr>users := users w @ [u]\<rparr>))))"

text \<open>
  \<^verbatim>\<open>redirect(path)\<close> of \<^verbatim>\<open>next/navigation\<close>: the redirect is recorded, and the call never
  returns: Next signals the redirect to the framework by throwing \<^verbatim>\<open>NEXT_REDIRECT\<close>.
\<close>

definition redirect :: "string \<Rightarrow> world \<Rightarrow> unit outcome \<times> world" where
  "redirect path w = (Throws (Error ''NEXT_REDIRECT''), w\<lparr>redirects := redirects w @ [path]\<rparr>)"

section \<open>The data access layer, \<^verbatim>\<open>src/lib/dal.ts\<close>\<close>

text \<open>
  The three drizzle queries of the file. A failing data store rejects each of them with
  its error. \<^verbatim>\<open>findMany\<close> joins every issue with the user it refers to and orders the
  rows by \<^verbatim>\<open>createdAt\<close>, descending; rows with the same \<^verbatim>\<open>createdAt\<close> stay in the order
  of the table.
\<close>

definition select_users_where_id :: "nat \<Rightarrow> world \<Rightarrow> user list outcome" where
  "select_users_where_id uid w =
     (case db_fault w of
        Some e \<Rightarrow> Throws e
      | None \<Rightarrow> Returns (filter (\<lambda>u. user_id u = uid) (users w)))"

definition users_findFirst_where_email :: "string \<Rightarrow> world \<Rightarrow> user option outcome" where
  "users_findFirst_where_email email w =
     (case db_fault w of
        Some e \<Rightarrow> Throws e
      | None \<Rightarrow> Returns (find (\<lambda>u. user_email u = email) (users w)))"

definition with_user :: "user list \<Rightarrow> issue \<Rightarrow> issue_with_user" where
  "with_user us i = \<lparr>row_issue = i, row_user = find (\<lambda>u. user_id u = issue_userId i) us\<rparr>"

definition issues_findMany_with_user_desc_createdAt :: "world \<Rightarrow> issue_with_user list outcome" where
  "issues_findMany_with_user_desc_createdAt w =
     (case db_fault w of
        Some e \<Rightarrow> Throws e
      | None \<Rightarrow>
          Returns (map (with_user (users w))
                     (sort_key (\<lambda>i. - int (issue_createdAt i)) (issues w))))"

definition getCurrentUser :: "world \<Rightarrow> user option outcome \<times> world" where
  "getCurrentUser w =
     (case getSession w of
        None \<Rightarrow> (Returns None, w)
      | Some s \<Rightarrow>
          (case select_users_where_id (userId s) w of
             Returns result \<Rightarrow> (Returns (case result of [] \<Rightarrow> None | u # _ \<Rightarrow> Some u), w)
           | Throws e \<Rightarrow> (Returns None, console_error [Thrown e] w)))"

definition getUserByEmail :: "string \<Rightarrow> world \<Rightarrow> user option outcome \<times> world" where
  "getUserByEmail email w =
     (case users_findFirst_where_email email w of
        Returns u \<Rightarrow> (Returns u, w)
      | Throws e \<Rightarrow> (Returns None, console_error [Thrown e] w))"

definition getIssues :: "world \<Rightarrow> issue_with_user list outcome \<times> world" where
  "getIssues w =
     (case issues_findMany_with_user_desc_createdAt w of
        Returns result \<Rightarrow> (Returns result, w)
      | Throws e \<Rightarrow> (Throws (Error ''Failed to fetch issues''), console_error [Thrown e] w))"

section \<open>The server actions, \<^verbatim>\<open>src/app/actions/auth.ts\<close>\<close>

definition validation_failed :: "zod_issue list \<Rightarrow> ActionResponse" where
  "validation_failed iss =
     \<lparr>success = False, message = ''Validation failed'',
      errors = Some (fieldErrors iss), error = None\<rparr>"

definition invalid_email_or_password :: ActionResponse where
  "invalid_email_or_password =
     \<lparr>success = False, message = ''Invalid email or password'',
      errors = Some [(''email'', [''Invalid email or password''])], error = None\<rparr>"

text \<open>The \<^verbatim>\<open>catch\<close> block of \<^verbatim>\<open>signin\<close>.\<close>

definition signin_catch :: "exn \<Rightarrow> world \<Rightarrow> ActionResponse outcome \<times> world" where
  "signin_catch e w =
     (Returns \<lparr>success = False, message = ''Something went wrong'', errors = None, error = None\<rparr>,
      console_log [Thrown e] w)"

definition signin :: "deps \<Rightarrow> FormData \<Rightarrow> world \<Rightarrow> ActionResponse outcome \<times> world" where
  "signin D formData w =
     (let w0 = mockDelay 700 w;
          email = formData ''email'';
          password = formData ''password'';
          validationResult = SignInSchema D email password
      in if validationResult \<noteq> [] then (Returns (validation_failed validationResult), w0)
         else
           (case getUserByEmail (as_string email) w0 of
              (Throws e, w1) \<Rightarrow> signin_catch e w1
            | (Returns None, w1) \<Rightarrow> (Returns invalid_email_or_password, w1)
            | (Returns (Some user), w1) \<Rightarrow>
                (case verifyPassword D (as_string password) (user_password user) of
                   Throws e \<Rightarrow> signin_catch e w1
                 | Returns isPasswordValid \<Rightarrow>
                     (if \<not> isPasswordValid then (Returns invalid_email_or_password, w1)
                      else
                        (case createSession D (user_id user) w1 of
                           (Throws e, w2) \<Rightarrow> signin_catch e w2
                         | (Returns _, w2) \<Rightarrow>
                             (Returns \<lparr>success = True, message = ''Signed in successfully'',
                                       errors = None, error = None\<rparr>, w2))))))"

text \<open>The \<^verbatim>\<open>catch\<close> block of \<^verbatim>\<open>signup\<close>.\<close>

definition signup_catch :: "exn \<Rightarrow> world \<Rightarrow> ActionResponse outcome \<times> world" where
  "signup_catch e w =
     (Returns \<lparr>success = False, message = ''An error occured while creating your account'',
               errors = None, error = Some ''Failed to create account''\<rparr>,
      console_log [Text ''Sign up errors:'', Thrown e] w)"

definition signup :: "deps \<Rightarrow> FormData \<Rightarrow> world \<Rightarrow> ActionResponse outcome \<times> world" where
  "signup D formData w =
     (let w0 = mockDelay 700 w;
          email = formData ''email'';
          password = formData ''password'';
          confirmPassword = formData ''confirmPassword'';
          validationResult = SignUpSchema D email password confirmPassword
      in if validationResult \<noteq> [] then (Returns (validation_failed validationResult), w0)
         else
           (case createUser D (as_string email) (as_string password) w0 of
              (Throws e, w1) \<Rightarrow> signup_catch e w1
            | (Returns None, w1) \<Rightarrow>
                (Returns \<lparr>success = False, message = ''try again'', errors = None,
                          error = Some ''failed to create user''\<rparr>, w1)
            | (Returns (Some user), w1) \<Rightarrow>
                (case createSession D (user_id user) w1 of
                   (Throws e, w2) \<Rightarrow> signup_catch e w2
                 | (Returns _, w2) \<Rightarrow>
                     (Returns \<lparr>success = True, message = ''Account created successfully'',
                               errors = None, error = None\<rparr>, w2))))"

text \<open>
  \<^verbatim>\<open>signout\<close>: the \<^verbatim>\<open>try\<close> block, the \<^verbatim>\<open>catch\<close> block (log, throw again), then the
  \<^verbatim>\<open>finally\<close> block. A \<^verbatim>\<open>finally\<close> block that throws replaces the completion of the
  blocks before it; one that returns leaves it.
\<close>

definition signout :: "world \<Rightarrow> unit outcome \<times> world" where
  "signout w =
     (let (tried, w1) = deleteSession w;
          (caught, w2) =
             (case tried of
                Returns _ \<Rightarrow> (Returns (), w1)
              | Throws e \<Rightarrow> (Throws e, console_error [Thrown e] w1))
      in case redirect ''/signin'' w2 of
           (Throws e, w3) \<Rightarrow> (Throws e, w3)
         | (Returns _, w3) \<Rightarrow> (caught, w3))"

section \<open>Reading field errors, and concrete inputs\<close>

text \<open>
  The messages that the issues of a parse attach to one field, in the order of the
  issues: what \<^verbatim>\<open>fieldErrors[k]\<close> holds after \<^verbatim>\<open>flatten()\<close>.
\<close>

fun messages_at :: "string \<Rightarrow> zod_issue list \<Rightarrow> string list" where
  "messages_at k [] = []"
| "messages_at k ((path, m) # rest) =
     (case path of
        [] \<Rightarrow> messages_at k rest
      | k' # _ \<Rightarrow> (if k' = k then m # messages_at k rest else messages_at k rest))"

text \<open>
  A form with the entries \<^verbatim>\<open>email\<close>, \<^verbatim>\<open>password\<close> and \<^verbatim>\<open>confirmPassword\<close>, and a concrete
  deployment: an email check that asks for an \<^verbatim>\<open>@\<close>, a toy hasher with its verifier, a
  session lifetime of an hour, and a store with two users and three issues.
\<close>

definition form_of :: "string \<Rightarrow> string \<Rightarrow> string \<Rightarrow> FormData" where
  "form_of e p c =
     (\<lambda>k. if k = ''email'' then Some (TextEntry e)
          else if k = ''password'' then Some (TextEntry p)
          else if k = ''confirmPassword'' then Some (TextEntry c) else None)"

definition fixture_deps :: deps where
  "fixture_deps =
     \<lparr>emailRegex = (\<lambda>s. CHR ''@'' \<in> set s),
      hashPassword = (\<lambda>p. ''h:'' @ p),
      verifyPassword = (\<lambda>p d. Returns (d = ''h:'' @ p)),
      session_ttl = 3600\<rparr>"

definition fixture_world :: world where
  "fixture_world =
     \<lparr>users = [\<lparr>user_id = 1, user_email = ''a@b.com'', user_password = ''h:secret1''\<rparr>,
               \<lparr>user_id = 2, user_email = ''c@d.org'', user_password = ''h:hunter22''\<rparr>],
      issues = [\<lparr>issue_id = 1, issue_createdAt = 10, issue_userId = 1\<rparr>,
                \<lparr>issue_id = 2, issue_createdAt = 30, issue_userId = 2\<rparr>,
                \<lparr>issue_id = 3, issue_createdAt = 20, issue_userId = 1\<rparr>],
      db_fault = None, session_slot = None, session_fault = None, clock = 1000,
      console = [], redirects = []\<rparr>"

section \<open>Auxiliary facts\<close>

lemma form_of_simps:
  "form_of e p c ''email'' = Some (TextEntry e)"
  "form_of e p c ''password'' = Some (TextEntry p)"
  "form_of e p c ''confirmPassword'' = Some (TextEntry c)"
  by (simp_all add: form_of_def)

lemma as_string_text: "as_string (Some (TextEntry s)) = s"
  by (simp add: as_string_def)

lemma SignInSchema_text:
  "SignInSchema D (Some (TextEntry e)) (Some (TextEntry p)) = []
     \<longleftrightarrow> e \<noteq> [] \<and> emailRegex D e \<and> p \<noteq> []"
  by (auto simp add: SignInSchema_def z_string_def z_min_def z_email_def)

lemma SignInSchema_Nil_text:
  "SignInSchema D email password = [] \<Longrightarrow>
     \<exists>e p. email = Some (TextEntry e) \<and> password = Some (TextEntry p)"
  by (auto simp add: SignInSchema_def z_string_def split: option.splits FormDataEntryValue.splits)

lemma SignUpSchema_text:
  "SignUpSchema D (Some (TextEntry e)) (Some (TextEntry p)) (Some (TextEntry c)) = []
     \<longleftrightarrow> e \<noteq> [] \<and> emailRegex D e \<and> 6 \<le> length p \<and> c \<noteq> [] \<and> p = c"
  by (auto simp add: SignUpSchema_def z_string_def is_text_def z_min_def z_email_def)

lemma SignUpSchema_Nil_text:
  "SignUpSchema D email password confirmPassword = [] \<Longrightarrow>
     \<exists>e p. email = Some (TextEntry e) \<and> password = Some (TextEntry p)"
  by (auto simp add: SignUpSchema_def z_string_def split: option.splits FormDataEntryValue.splits)

subsection \<open>Field errors are the messages of the issues, grouped by field\<close>

lemma messages_at_append: "messages_at k (xs @ ys) = messages_at k xs @ messages_at k ys"
  by (induction xs) (auto split: list.splits)

lemma map_of_push_message:
  "map_of (push_message k m acc) k' =
     (if k' = k then Some ((case map_of acc k of None \<Rightarrow> [] | Some ms \<Rightarrow> ms) @ [m])
      else map_of acc k')"
  by (induction acc) auto

lemma map_of_fieldErrors_from:
  "map_of (fieldErrors_from acc iss) k =
     (case map_of acc k of
        None \<Rightarrow> (if messages_at k iss = [] then None else Some (messages_at k iss))
      | Some ms \<Rightarrow> Some (ms @ messages_at k iss))"
  by (induction acc iss rule: fieldErrors_from.induct)
     (simp_all add: map_of_push_message split: option.splits list.splits)

lemma map_of_fieldErrors:
  "map_of (fieldErrors iss) k = (if messages_at k iss = [] then None else Some (messages_at k iss))"
  by (simp add: fieldErrors_def map_of_fieldErrors_from)

lemma messages_at_z_min:
  "messages_at k (z_min n msg [f] v) = (if f = k \<and> length v < n then [msg] else [])"
  by (simp add: z_min_def)

lemma messages_at_z_email:
  "messages_at k (z_email D msg [f] v) = (if f = k \<and> \<not> emailRegex D v then [msg] else [])"
  by (simp add: z_email_def)

lemma messages_at_z_string:
  "messages_at k (z_string [f] checks v) =
     (case v of
        Some (TextEntry s) \<Rightarrow> messages_at k (checks s)
      | Some FileEntry \<Rightarrow> (if f = k then [''Expected string, received object''] else [])
      | None \<Rightarrow> (if f = k then [''Expected string, received null''] else []))"
  by (simp add: z_string_def split: option.splits FormDataEntryValue.splits)

lemma messages_at_SignUpSchema_text:
  "messages_at k (SignUpSchema D (Some (TextEntry e)) (Some (TextEntry p)) (Some (TextEntry c))) =
     (if k = ''email'' then
        (if length e < 1 then [''Email is required''] else [])
        @ (if emailRegex D e then [] else [''Invalid email format''])
      else if k = ''password'' then
        (if length p < 6 then [''Password must be at least 6 characters''] else [])
      else if k = ''confirmPassword'' then
        (if length c < 1 then [''Please confirm your password''] else [])
        @ (if p = c then [] else [''Passwords don't match''])
      else [])"
  unfolding SignUpSchema_def messages_at_append messages_at_z_string messages_at_z_min
    messages_at_z_email
  by (simp add: is_text_def)

lemma z_string_lacks_message:
  assumes "\<And>s. m \<notin> set (messages_at k (checks s))"
    and "m \<noteq> ''Expected string, received object''"
    and "m \<noteq> ''Expected string, received null''"
  shows "m \<notin> set (messages_at k (z_string [f] checks v))"
  using assms by (simp add: messages_at_z_string split: option.splits FormDataEntryValue.splits)

lemma mismatch_only_on_confirmPassword:
  assumes "''Passwords don't match'' \<in> set (messages_at k (SignUpSchema D email password confirmPassword))"
  shows "k = ''confirmPassword''"
proof -
  have e: "''Passwords don't match'' \<notin> set (messages_at k (z_string [''email'']
       (\<lambda>s. z_min 1 ''Email is required'' [''email''] s
            @ z_email D ''Invalid email format'' [''email''] s) email))"
    by (rule z_string_lacks_message)
       (simp_all add: messages_at_append messages_at_z_min messages_at_z_email)
  have p: "''Passwords don't match'' \<notin> set (messages_at k (z_string [''password'']
       (\<lambda>s. z_min 6 ''Password must be at least 6 characters'' [''password''] s) password))"
    by (rule z_string_lacks_message) (simp_all add: messages_at_z_min)
  have c: "''Passwords don't match'' \<notin> set (messages_at k (z_string [''confirmPassword'']
       (\<lambda>s. z_min 1 ''Please confirm your password'' [''confirmPassword''] s) confirmPassword))"
    by (rule z_string_lacks_message) (simp_all add: messages_at_z_min)
  from assms e p c show ?thesis
    unfolding SignUpSchema_def messages_at_append set_append
    by (simp split: if_splits)
qed

lemma signup_valid_errors:
  assumes "SignUpSchema D (formData ''email'') (formData ''password'') (formData ''confirmPassword'') = []"
    and "fst (signup D formData w) = Returns r"
  shows "message r \<noteq> ''Validation failed'' \<and> errors r = None"
  using assms
  by (auto simp add: signup_def mockDelay_def signup_catch_def createSession_def createUser_def Let_def
      split: option.splits outcome.splits prod.splits if_splits)

subsection \<open>Fresh ids, sessions and the first row with an id\<close>

lemma fold_max_ge_init: "(a::nat) \<le> fold max xs a"
proof (induction xs arbitrary: a)
  case Nil
  then show ?case by simp
next
  case (Cons x xs)
  have "a \<le> max x a" by simp
  also have "\<dots> \<le> fold max xs (max x a)" by (rule Cons.IH)
  finally show ?case by simp
qed

lemma fold_max_ge_elem: "(x::nat) \<in> set xs \<Longrightarrow> x \<le> fold max xs a"
proof (induction xs arbitrary: a)
  case Nil
  then show ?case by simp
next
  case (Cons y ys)
  show ?case
  proof (cases "x = y")
    case True
    have "x \<le> max y a" using True by simp
    also have "\<dots> \<le> fold max ys (max y a)" by (rule fold_max_ge_init)
    finally show ?thesis by simp
  next
    case False
    then have "x \<in> set ys" using Cons.prems by simp
    then show ?thesis using Cons.IH by simp
  qed
qed

lemma fresh_user_id_new: "u \<in> set us \<Longrightarrow> user_id u \<noteq> fresh_user_id us"
proof -
  assume "u \<in> set us"
  then have "user_id u \<in> set (map user_id us)" by simp
  then have "user_id u \<le> fold max (map user_id us) 0" by (rule fold_max_ge_elem)
  then show ?thesis by (simp add: fresh_user_id_def)
qed

lemma filter_fresh_user_id: "filter (\<lambda>x. user_id x = fresh_user_id us) us = []"
  using fresh_user_id_new by (auto simp add: filter_empty_conv)

lemma getSession_after_createSession:
  "createSession D uid w1 = (Returns (), w') \<Longrightarrow>
     getSession w' = Some \<lparr>userId = uid, issuedAt = clock w1, expiresAt = clock w1 + session_ttl D\<rparr>
     \<and> users w' = users w1 \<and> db_fault w' = db_fault w1"
  by (auto simp add: createSession_def getSession_def split: option.splits)

lemma first_with_id:
  assumes "u \<in> set us"
  shows "\<exists>u' rest. filter (\<lambda>x. user_id x = user_id u) us = u' # rest \<and> u' \<in> set us
            \<and> user_id u' = user_id u"
proof -
  have "u \<in> set (filter (\<lambda>x. user_id x = user_id u) us)" using assms by simp
  then obtain u' rest where f: "filter (\<lambda>x. user_id x = user_id u) us = u' # rest"
    by (cases "filter (\<lambda>x. user_id x = user_id u) us") auto
  have "u' \<in> set (filter (\<lambda>x. user_id x = user_id u) us)" unfolding f by simp
  then have "u' \<in> set us \<and> user_id u' = user_id u" by simp
  then show ?thesis using f by blast
qed

lemma getCurrentUser_after_createSession:
  assumes cs: "createSession D (user_id u) w1 = (Returns (), w')"
    and mem: "u \<in> set (users w1)" and up: "db_fault w1 = None"
  shows "\<exists>u'. getCurrentUser w' = (Returns (Some u'), w') \<and> u' \<in> set (users w1)
           \<and> user_id u' = user_id u"
proof -
  from getSession_after_createSession [OF cs]
  have s: "getSession w' = Some \<lparr>userId = user_id u, issuedAt = clock w1, expiresAt = clock w1 + session_ttl D\<rparr>"
    and us: "users w' = users w1" and db: "db_fault w' = None" using up by simp_all
  from first_with_id [OF mem] obtain u' rest where
    f: "filter (\<lambda>x. user_id x = user_id u) (users w1) = u' # rest"
    and u': "u' \<in> set (users w1)" "user_id u' = user_id u" by blast
  have "getCurrentUser w' = (Returns (Some u'), w')"
    by (simp add: getCurrentUser_def s select_users_where_id_def db us f)
  then show ?thesis using u' by blast
qed

lemma signin_success_session:
  assumes "signin D formData w = (Returns r, w')" and "success r"
  shows "\<exists>u. find (\<lambda>x. user_email x = as_string (formData ''email'')) (users w) = Some u
           \<and> formData ''email'' = Some (TextEntry (as_string (formData ''email'')))
           \<and> db_fault w = None
           \<and> createSession D (user_id u) w = (Returns (), w')"
proof -
  have v: "SignInSchema D (formData ''email'') (formData ''password'') = []"
    using assms by (auto simp add: signin_def Let_def validation_failed_def split: if_splits)
  from SignInSchema_Nil_text [OF v] have t: "formData ''email'' = Some (TextEntry (as_string (formData ''email'')))"
    by (auto simp add: as_string_def)
  show ?thesis
    using assms v t
    by (auto simp add: signin_def mockDelay_def Let_def
          invalid_email_or_password_def signin_catch_def getUserByEmail_def
          users_findFirst_where_email_def
        split: option.splits outcome.splits prod.splits if_splits)
qed

lemma signup_success_session:
  assumes "signup D formData w = (Returns r, w')" and "success r"
  shows "\<exists>e p u w1. formData ''email'' = Some (TextEntry e) \<and> formData ''password'' = Some (TextEntry p)
           \<and> createUser D e p w = (Returns (Some u), w1)
           \<and> createSession D (user_id u) w1 = (Returns (), w')"
proof -
  have v: "SignUpSchema D (formData ''email'') (formData ''password'') (formData ''confirmPassword'') = []"
    using assms by (auto simp add: signup_def Let_def validation_failed_def split: if_splits)
  from SignUpSchema_Nil_text [OF v] obtain e p where
    t: "formData ''email'' = Some (TextEntry e)" "formData ''password'' = Some (TextEntry p)" by blast
  show ?thesis
    using assms v
    by (auto simp add: signup_def mockDelay_def Let_def signup_catch_def t as_string_text
        split: option.splits outcome.splits prod.splits if_splits)
qed

lemma createUser_inserts:
  assumes "createUser D email password w = (Returns (Some u), w1)"
  shows "users w1 = users w @ [u] \<and> user_id u = fresh_user_id (users w) \<and> db_fault w1 = None
         \<and> user_email u = email"
  using assms
  by (auto simp add: createUser_def Let_def split: option.splits if_splits)

subsection \<open>Ordering and owners of the issue rows\<close>

lemma sorted_desc_sort_key:
  fixes f :: "'a \<Rightarrow> nat"
  shows "sorted_wrt (\<lambda>a b. f b \<le> f a) (sort_key (\<lambda>i. - int (f i)) xs)"
proof -
  have "sorted (map (\<lambda>i. - int (f i)) (sort_key (\<lambda>i. - int (f i)) xs))" by (rule sorted_sort_key)
  then show ?thesis by (simp add: sorted_wrt_map)
qed

lemma find_owner_Some:
  "find (\<lambda>u. user_id u = k) us = Some u \<Longrightarrow> u \<in> set us \<and> user_id u = k"
  by (auto simp add: find_Some_iff)

lemma find_owner_None:
  "find (\<lambda>u. user_id u = k) us = None \<Longrightarrow> k \<notin> set (map user_id us)"
  by (force simp add: find_None_iff)

section \<open>The claims\<close>

text \<open>
  C1. After a successful \<^verbatim>\<open>signin\<close> or \<^verbatim>\<open>signup\<close> (a result with \<^verbatim>\<open>success: true\<close>),
  \<^verbatim>\<open>getCurrentUser()\<close> returns the user record whose id was passed to \<^verbatim>\<open>createSession\<close>:
  for \<^verbatim>\<open>signin\<close> a stored user with the email of the form and the id of the session (the
  user found by email itself when ids are unique), for \<^verbatim>\<open>signup\<close> the user just created.
  After a \<^verbatim>\<open>signout\<close> whose session destroy succeeds, \<^verbatim>\<open>getCurrentUser()\<close> returns none,
  whatever the state was before. The session store is the one described by the
  specification.
\<close>

theorem currentUser_after_signin_signup_signout:
  "(signin D formData w = (Returns r, w') \<and> success r \<longrightarrow>
      (\<exists>u. u \<in> set (users w) \<and> formData ''email'' = Some (TextEntry (user_email u))
          \<and> createSession D (user_id u) w = (Returns (), w')
          \<and> (\<exists>u'. getCurrentUser w' = (Returns (Some u'), w') \<and> u' \<in> set (users w)
                 \<and> user_id u' = user_id u
                 \<and> (distinct (map user_id (users w)) \<longrightarrow> u' = u))))
   \<and> (signup D formData w = (Returns r, w') \<and> success r \<longrightarrow>
      (\<exists>e p u w1. formData ''email'' = Some (TextEntry e)
          \<and> formData ''password'' = Some (TextEntry p)
          \<and> createUser D e p w = (Returns (Some u), w1)
          \<and> createSession D (user_id u) w1 = (Returns (), w')
          \<and> getCurrentUser w' = (Returns (Some u), w')))
   \<and> (session_fault w = None \<longrightarrow> fst (getCurrentUser (snd (signout w))) = Returns None)"
proof (intro conjI impI)
  assume a: "signin D formData w = (Returns r, w') \<and> success r"
  then obtain u where f: "find (\<lambda>x. user_email x = as_string (formData ''email'')) (users w) = Some u"
    and tx: "formData ''email'' = Some (TextEntry (as_string (formData ''email'')))"
    and up: "db_fault w = None" and cs: "createSession D (user_id u) w = (Returns (), w')"
    using signin_success_session [of D formData w r w'] by blast
  from f have mem: "u \<in> set (users w)" and eq: "user_email u = as_string (formData ''email'')"
    by (auto simp add: find_Some_iff)
  from tx eq have em: "formData ''email'' = Some (TextEntry (user_email u))" by simp
  from getCurrentUser_after_createSession [OF cs mem up] obtain u' where
    g: "getCurrentUser w' = (Returns (Some u'), w')" and m': "u' \<in> set (users w)"
    and i': "user_id u' = user_id u" by blast
  have "u' = u" if "distinct (map user_id (users w))"
    using that mem m' i' by (auto simp add: distinct_map dest: inj_onD)
  then show "\<exists>u. u \<in> set (users w) \<and> formData ''email'' = Some (TextEntry (user_email u))
          \<and> createSession D (user_id u) w = (Returns (), w')
          \<and> (\<exists>u'. getCurrentUser w' = (Returns (Some u'), w') \<and> u' \<in> set (users w)
                 \<and> user_id u' = user_id u
                 \<and> (distinct (map user_id (users w)) \<longrightarrow> u' = u))"
    using mem em cs g m' i' by blast
next
  assume a: "signup D formData w = (Returns r, w') \<and> success r"
  then obtain e p u w1 where
    te: "formData ''email'' = Some (TextEntry e)" and tp: "formData ''password'' = Some (TextEntry p)"
    and cu: "createUser D e p w = (Returns (Some u), w1)"
    and cs: "createSession D (user_id u) w1 = (Returns (), w')"
    using signup_success_session [of D formData w r w'] by blast
  from createUser_inserts [OF cu] have us: "users w1 = users w @ [u]"
    and id: "user_id u = fresh_user_id (users w)" and up: "db_fault w1 = None" by simp_all
  from getSession_after_createSession [OF cs]
  have s: "getSession w' = Some \<lparr>userId = user_id u, issuedAt = clock w1, expiresAt = clock w1 + session_ttl D\<rparr>"
    and us': "users w' = users w1" and db: "db_fault w' = None" using up by simp_all
  have "filter (\<lambda>x. user_id x = user_id u) (users w') = [u]"
    unfolding us' us using filter_fresh_user_id [of "users w"] by (simp add: id)
  then have "getCurrentUser w' = (Returns (Some u), w')"
    by (simp add: getCurrentUser_def s select_users_where_id_def db)
  then show "\<exists>e p u w1. formData ''email'' = Some (TextEntry e)
          \<and> formData ''password'' = Some (TextEntry p)
          \<and> createUser D e p w = (Returns (Some u), w1)
          \<and> createSession D (user_id u) w1 = (Returns (), w')
          \<and> getCurrentUser w' = (Returns (Some u), w')"
    using te tp cu cs by blast
next
  assume "session_fault w = None"
  then have "session_slot (snd (signout w)) = None"
    by (simp add: signout_def deleteSession_def redirect_def Let_def split: option.splits)
  then show "fst (getCurrentUser (snd (signout w))) = Returns None"
    by (simp add: getCurrentUser_def getSession_def)
qed

theorem currentUser_after_signin_signup_signout_witness:
  "(signin fixture_deps (form_of ''a@b.com'' ''secret1'' []) fixture_world
      = (Returns \<lparr>success = True, message = ''Signed in successfully'', errors = None, error = None\<rparr>,
         fixture_world\<lparr>session_slot := Some \<lparr>userId = 1, issuedAt = 1000, expiresAt = 4600\<rparr>\<rparr>)
    \<and> getCurrentUser (fixture_world\<lparr>session_slot := Some \<lparr>userId = 1, issuedAt = 1000, expiresAt = 4600\<rparr>\<rparr>)
      = (Returns (Some \<lparr>user_id = 1, user_email = ''a@b.com'', user_password = ''h:secret1''\<rparr>),
         fixture_world\<lparr>session_slot := Some \<lparr>userId = 1, issuedAt = 1000, expiresAt = 4600\<rparr>\<rparr>))
   \<and> (signup fixture_deps (form_of ''new@b.com'' ''secret1'' ''secret1'') fixture_world
      = (Returns \<lparr>success = True, message = ''Account created successfully'', errors = None, error = None\<rparr>,
         fixture_world
           \<lparr>users := users fixture_world
              @ [\<lparr>user_id = 3, user_email = ''new@b.com'', user_password = ''h:secret1''\<rparr>],
            session_slot := Some \<lparr>userId = 3, issuedAt = 1000, expiresAt = 4600\<rparr>\<rparr>)
    \<and> getCurrentUser (fixture_world
           \<lparr>users := users fixture_world
              @ [\<lparr>user_id = 3, user_email = ''new@b.com'', user_password = ''h:secret1''\<rparr>],
            session_slot := Some \<lparr>userId = 3, issuedAt = 1000, expiresAt = 4600\<rparr>\<rparr>)
      = (Returns (Some \<lparr>user_id = 3, user_email = ''new@b.com'', user_password = ''h:secret1''\<rparr>),
         fixture_world
           \<lparr>users := users fixture_world
              @ [\<lparr>user_id = 3, user_email = ''new@b.com'', user_password = ''h:secret1''\<rparr>],
            session_slot := Some \<lparr>userId = 3, issuedAt = 1000, expiresAt = 4600\<rparr>\<rparr>))
   \<and> (session_fault (fixture_world\<lparr>session_slot := Some \<lparr>userId = 1, issuedAt = 900, expiresAt = 4500\<rparr>\<rparr>)
      = None
    \<and> fst (getCurrentUser (snd (signout
        (fixture_world\<lparr>session_slot := Some \<lparr>userId = 1, issuedAt = 900, expiresAt = 4500\<rparr>\<rparr>))))
      = Returns None)"
proof -
  let ?alice = "\<lparr>user_id = 1, user_email = ''a@b.com'', user_password = ''h:secret1''\<rparr>"
  let ?new = "\<lparr>user_id = 3, user_email = ''new@b.com'', user_password = ''h:secret1''\<rparr>"
  let ?ok1 = "\<lparr>success = True, message = ''Signed in successfully'', errors = None, error = None\<rparr>"
  let ?ok2 = "\<lparr>success = True, message = ''Account created successfully'', errors = None, error = None\<rparr>"
  let ?w1 = "fixture_world\<lparr>session_slot := Some \<lparr>userId = 1, issuedAt = 1000, expiresAt = 4600\<rparr>\<rparr>"
  let ?wu = "fixture_world\<lparr>users := users fixture_world @ [?new]\<rparr>"
  let ?w2 = "fixture_world\<lparr>users := users fixture_world @ [?new],
               session_slot := Some \<lparr>userId = 3, issuedAt = 1000, expiresAt = 4600\<rparr>\<rparr>"
  let ?w3 = "fixture_world\<lparr>session_slot := Some \<lparr>userId = 1, issuedAt = 900, expiresAt = 4500\<rparr>\<rparr>"
  have h1: "signin fixture_deps (form_of ''a@b.com'' ''secret1'' []) fixture_world = (Returns ?ok1, ?w1)
              \<and> success ?ok1"
    by (simp add: signin_def mockDelay_def SignInSchema_text as_string_text form_of_simps fixture_deps_def
        fixture_world_def getUserByEmail_def users_findFirst_where_email_def createSession_def)
  have h2: "signup fixture_deps (form_of ''new@b.com'' ''secret1'' ''secret1'') fixture_world
              = (Returns ?ok2, ?w2) \<and> success ?ok2"
    by (simp add: signup_def mockDelay_def SignUpSchema_text as_string_text form_of_simps fixture_deps_def
        fixture_world_def createUser_def createSession_def fresh_user_id_def Let_def)
  have h3: "session_fault ?w3 = None" by (simp add: fixture_world_def)
  have d: "distinct (map user_id (users fixture_world))" by (simp add: fixture_world_def)
  note t1 = currentUser_after_signin_signup_signout
      [of fixture_deps "form_of ''a@b.com'' ''secret1'' []" fixture_world ?ok1 ?w1,
       THEN conjunct1, THEN mp, OF h1]
  note t2 = currentUser_after_signin_signup_signout
      [of fixture_deps "form_of ''new@b.com'' ''secret1'' ''secret1''" fixture_world ?ok2 ?w2,
       THEN conjunct2, THEN conjunct1, THEN mp, OF h2]
  note t3 = currentUser_after_signin_signup_signout
      [of _ _ ?w3, THEN conjunct2, THEN conjunct2, THEN mp, OF h3]
  from t1 d obtain u where u: "u \<in> set (users fixture_world)" "user_email u = ''a@b.com''"
      and g1: "getCurrentUser ?w1 = (Returns (Some u), ?w1)"
    by (auto simp add: form_of_simps)
  from u have "u = ?alice" by (auto simp add: fixture_world_def)
  then have c1: "getCurrentUser ?w1 = (Returns (Some ?alice), ?w1)" using g1 by simp
  from t2 obtain u2 w1 where cu: "createUser fixture_deps ''new@b.com'' ''secret1'' fixture_world = (Returns (Some u2), w1)"
      and g2: "getCurrentUser ?w2 = (Returns (Some u2), ?w2)"
    by (auto simp add: form_of_simps)
  from cu have "u2 = ?new"
    by (auto simp add: createUser_def fixture_deps_def fixture_world_def fresh_user_id_def Let_def
        numeral_3_eq_3)
  then have c2: "getCurrentUser ?w2 = (Returns (Some ?new), ?w2)" using g2 by simp
  show ?thesis using h1 c1 h2 c2 h3 t3 by simp
qed

text \<open>
  C2. For well-formed input (a non-empty email that passes the email check, a non-empty
  password), a \<^verbatim>\<open>signin\<close> with an email that no user has and a \<^verbatim>\<open>signin\<close> with the email of a
  user whose password fails verification return the same envelope: the same \<^verbatim>\<open>message\<close>,
  \<^verbatim>\<open>Invalid email or password\<close>, and the same content of \<^verbatim>\<open>errors.email\<close>.
\<close>

theorem signin_unknown_email_wrong_password_same_answer:
  assumes "formData1 ''email'' = Some (TextEntry e1)" and "e1 \<noteq> []" and "emailRegex D e1"
    and "formData1 ''password'' = Some (TextEntry p1)" and "p1 \<noteq> []"
    and "e1 \<notin> set (map user_email (users w1))"
    and "formData2 ''email'' = Some (TextEntry e2)" and "e2 \<noteq> []" and "emailRegex D e2"
    and "formData2 ''password'' = Some (TextEntry p2)" and "p2 \<noteq> []"
    and "find (\<lambda>u. user_email u = e2) (users w2) = Some u"
    and "verifyPassword D p2 (user_password u) = Returns False"
  shows "\<exists>r1 r2. fst (signin D formData1 w1) = Returns r1 \<and> fst (signin D formData2 w2) = Returns r2
           \<and> message r1 = ''Invalid email or password'' \<and> message r2 = message r1
           \<and> errors_of r1 ''email'' = Some [''Invalid email or password'']
           \<and> errors_of r2 ''email'' = errors_of r1 ''email'' \<and> r1 = r2"
proof -
  have v1: "SignInSchema D (formData1 ''email'') (formData1 ''password'') = []"
    using assms by (simp add: SignInSchema_text)
  have v2: "SignInSchema D (formData2 ''email'') (formData2 ''password'') = []"
    using assms by (simp add: SignInSchema_text)
  have nf: "find (\<lambda>u. user_email u = e1) (users w1) = None"
    using assms(6) by (force simp add: find_None_iff)
  have r1: "fst (signin D formData1 w1) = Returns invalid_email_or_password"
    using v1 nf assms(1)
    by (simp add: signin_def mockDelay_def getUserByEmail_def users_findFirst_where_email_def
        as_string_text split: option.splits)
  have r2: "fst (signin D formData2 w2) = Returns invalid_email_or_password"
    using v2 assms(7,10,12,13)
    by (simp add: signin_def mockDelay_def getUserByEmail_def users_findFirst_where_email_def
        as_string_text split: option.splits)
  show ?thesis
    unfolding r1 r2 by (simp add: invalid_email_or_password_def errors_of_def)
qed

theorem signin_unknown_email_wrong_password_same_answer_witness:
  "\<exists>r1 r2. fst (signin fixture_deps (form_of ''nobody@b.com'' ''secret1'' []) fixture_world) = Returns r1
     \<and> fst (signin fixture_deps (form_of ''a@b.com'' ''wrong'' []) fixture_world) = Returns r2
     \<and> message r1 = ''Invalid email or password'' \<and> message r2 = message r1
     \<and> errors_of r1 ''email'' = Some [''Invalid email or password'']
     \<and> errors_of r2 ''email'' = errors_of r1 ''email'' \<and> r1 = r2"
  using signin_unknown_email_wrong_password_same_answer
          [of "form_of ''nobody@b.com'' ''secret1'' []" "''nobody@b.com''" fixture_deps "''secret1''"
              fixture_world
              "form_of ''a@b.com'' ''wrong'' []" "''a@b.com''" "''wrong''" fixture_world
              "\<lparr>user_id = 1, user_email = ''a@b.com'', user_password = ''h:secret1''\<rparr>"]
  by (simp add: form_of_simps fixture_deps_def fixture_world_def)

text \<open>
  C3. No exception surfaces from \<^verbatim>\<open>signin\<close>. An exception of \<^verbatim>\<open>verifyPassword\<close> or of
  \<^verbatim>\<open>createSession\<close> is caught, logged and answered with
  \<^verbatim>\<open>{success: false, message: "Something went wrong"}\<close>. An exception of the data-store
  lookup never reaches the \<^verbatim>\<open>catch\<close> of \<^verbatim>\<open>signin\<close>: \<^verbatim>\<open>getUserByEmail\<close> catches it, logs
  it and returns null, and \<^verbatim>\<open>signin\<close> answers as for an unknown email, with
  \<^verbatim>\<open>Invalid email or password\<close>.
\<close>

theorem signin_failure_handling:
  "(\<exists>r. fst (signin D formData w) = Returns r)
   \<and> (SignInSchema D (formData ''email'') (formData ''password'') = []
        \<and> find (\<lambda>u. user_email u = as_string (formData ''email'')) (users w) = Some u \<and> db_fault w = None
        \<and> verifyPassword D (as_string (formData ''password'')) (user_password u) = Throws e
      \<longrightarrow> signin D formData w =
            (Returns \<lparr>success = False, message = ''Something went wrong'', errors = None, error = None\<rparr>,
             console_log [Thrown e] w))
   \<and> (SignInSchema D (formData ''email'') (formData ''password'') = []
        \<and> find (\<lambda>u. user_email u = as_string (formData ''email'')) (users w) = Some u \<and> db_fault w = None
        \<and> verifyPassword D (as_string (formData ''password'')) (user_password u) = Returns True
        \<and> session_fault w = Some e
      \<longrightarrow> signin D formData w =
            (Returns \<lparr>success = False, message = ''Something went wrong'', errors = None, error = None\<rparr>,
             console_log [Thrown e] w))
   \<and> (SignInSchema D (formData ''email'') (formData ''password'') = [] \<and> db_fault w = Some e
      \<longrightarrow> signin D formData w =
            (Returns \<lparr>success = False, message = ''Invalid email or password'',
                      errors = Some [(''email'', [''Invalid email or password''])], error = None\<rparr>,
             console_error [Thrown e] w))"
proof (intro conjI impI)
  show "\<exists>r. fst (signin D formData w) = Returns r"
    by (auto simp add: signin_def Let_def signin_catch_def getUserByEmail_def createSession_def
        split: prod.splits outcome.splits option.splits)
qed (simp_all add: signin_def mockDelay_def signin_catch_def getUserByEmail_def
       users_findFirst_where_email_def createSession_def invalid_email_or_password_def)

theorem signin_failure_handling_witness:
  "signin fixture_deps (form_of ''a@b.com'' ''secret1'' [])
      (fixture_world\<lparr>session_fault := Some (Error ''session store down'')\<rparr>) =
     (Returns \<lparr>success = False, message = ''Something went wrong'', errors = None, error = None\<rparr>,
      console_log [Thrown (Error ''session store down'')]
        (fixture_world\<lparr>session_fault := Some (Error ''session store down'')\<rparr>))
   \<and> signin (fixture_deps\<lparr>verifyPassword := (\<lambda>p d. Throws (Error ''bad digest''))\<rparr>)
        (form_of ''a@b.com'' ''secret1'' []) fixture_world =
     (Returns \<lparr>success = False, message = ''Something went wrong'', errors = None, error = None\<rparr>,
      console_log [Thrown (Error ''bad digest'')] fixture_world)
   \<and> signin fixture_deps (form_of ''a@b.com'' ''secret1'' [])
        (fixture_world\<lparr>db_fault := Some (Error ''connection refused'')\<rparr>) =
     (Returns \<lparr>success = False, message = ''Invalid email or password'',
               errors = Some [(''email'', [''Invalid email or password''])], error = None\<rparr>,
      console_error [Thrown (Error ''connection refused'')]
        (fixture_world\<lparr>db_fault := Some (Error ''connection refused'')\<rparr>))"
  using signin_failure_handling
          [of fixture_deps "form_of ''a@b.com'' ''secret1'' []"
              "fixture_world\<lparr>session_fault := Some (Error ''session store down'')\<rparr>"
              "\<lparr>user_id = 1, user_email = ''a@b.com'', user_password = ''h:secret1''\<rparr>"
              "Error ''session store down''"]
        signin_failure_handling
          [of "fixture_deps\<lparr>verifyPassword := (\<lambda>p d. Throws (Error ''bad digest''))\<rparr>"
              "form_of ''a@b.com'' ''secret1'' []" fixture_world
              "\<lparr>user_id = 1, user_email = ''a@b.com'', user_password = ''h:secret1''\<rparr>"
              "Error ''bad digest''"]
        signin_failure_handling
          [of fixture_deps "form_of ''a@b.com'' ''secret1'' []"
              "fixture_world\<lparr>db_fault := Some (Error ''connection refused'')\<rparr>" _
              "Error ''connection refused''"]
  by (simp add: form_of_simps SignInSchema_text as_string_text fixture_deps_def fixture_world_def)

text \<open>
  The claim as it was stated, with \<^verbatim>\<open>Something went wrong\<close> as the answer to a failing
  lookup of the user, is false: the store rejects the query, and the answer is
  \<^verbatim>\<open>Invalid email or password\<close>.
\<close>

theorem signin_lookup_failure_counterexample:
  "users_findFirst_where_email ''a@b.com'' (fixture_world\<lparr>db_fault := Some (Error ''connection refused'')\<rparr>)
     = Throws (Error ''connection refused'')
   \<and> fst (signin fixture_deps (form_of ''a@b.com'' ''secret1'' [])
             (fixture_world\<lparr>db_fault := Some (Error ''connection refused'')\<rparr>))
     = Returns \<lparr>success = False, message = ''Invalid email or password'',
                errors = Some [(''email'', [''Invalid email or password''])], error = None\<rparr>
   \<and> fst (signin fixture_deps (form_of ''a@b.com'' ''secret1'' [])
             (fixture_world\<lparr>db_fault := Some (Error ''connection refused'')\<rparr>))
     \<noteq> Returns \<lparr>success = False, message = ''Something went wrong'', errors = None, error = None\<rparr>"
  by (simp add: signin_def mockDelay_def SignInSchema_text as_string_text form_of_simps fixture_deps_def
      fixture_world_def getUserByEmail_def users_findFirst_where_email_def
      invalid_email_or_password_def)

text \<open>
  C4. A \<^verbatim>\<open>signup\<close> whose \<^verbatim>\<open>email\<close>, \<^verbatim>\<open>password\<close> and \<^verbatim>\<open>confirmPassword\<close> entries are all
  text and whose \<^verbatim>\<open>password\<close> differs from \<^verbatim>\<open>confirmPassword\<close> is a validation failure whose
  \<^verbatim>\<open>errors\<close> has an entry for \<^verbatim>\<open>confirmPassword\<close> that holds the mismatch message. And for
  every form, with or without its entries, no other field, \<^verbatim>\<open>password\<close> included, ever
  holds that message.
\<close>

theorem signup_mismatch_on_confirmPassword:
  "(formData ''email'' = Some (TextEntry e) \<and> formData ''password'' = Some (TextEntry p)
      \<and> formData ''confirmPassword'' = Some (TextEntry c) \<and> p \<noteq> c \<longrightarrow>
      (\<exists>r. signup D formData w = (Returns r, w) \<and> success r = False
          \<and> message r = ''Validation failed''
          \<and> (\<exists>ms. errors_of r ''confirmPassword'' = Some ms \<and> ''Passwords don't match'' \<in> set ms)))
   \<and> (\<forall>r k ms. fst (signup D formData w) = Returns r \<and> errors_of r k = Some ms
          \<and> ''Passwords don't match'' \<in> set ms \<longrightarrow> k = ''confirmPassword'')"
proof (intro conjI impI allI)
  let ?iss = "SignUpSchema D (formData ''email'') (formData ''password'') (formData ''confirmPassword'')"
  assume a: "formData ''email'' = Some (TextEntry e) \<and> formData ''password'' = Some (TextEntry p)
      \<and> formData ''confirmPassword'' = Some (TextEntry c) \<and> p \<noteq> c"
  then have iss: "?iss = SignUpSchema D (Some (TextEntry e)) (Some (TextEntry p)) (Some (TextEntry c))"
    by simp
  have ne: "?iss \<noteq> []" using a unfolding iss by (simp add: SignUpSchema_text)
  have run: "signup D formData w = (Returns (validation_failed ?iss), w)"
    using ne by (simp add: signup_def mockDelay_def Let_def)
  have m: "''Passwords don't match'' \<in> set (messages_at ''confirmPassword'' ?iss)"
    using a unfolding iss by (simp add: messages_at_SignUpSchema_text)
  then have "errors_of (validation_failed ?iss) ''confirmPassword''
               = Some (messages_at ''confirmPassword'' ?iss)"
    by (auto simp add: errors_of_def validation_failed_def map_of_fieldErrors)
  moreover have "success (validation_failed ?iss) = False"
    and "message (validation_failed ?iss) = ''Validation failed''"
    by (simp_all add: validation_failed_def)
  ultimately show "\<exists>r. signup D formData w = (Returns r, w) \<and> success r = False
          \<and> message r = ''Validation failed''
          \<and> (\<exists>ms. errors_of r ''confirmPassword'' = Some ms \<and> ''Passwords don't match'' \<in> set ms)"
    using run m by blast
next
  fix r k ms
  let ?iss = "SignUpSchema D (formData ''email'') (formData ''password'') (formData ''confirmPassword'')"
  assume b: "fst (signup D formData w) = Returns r \<and> errors_of r k = Some ms
          \<and> ''Passwords don't match'' \<in> set ms"
  show "k = ''confirmPassword''"
  proof (cases "?iss = []")
    case True
    from signup_valid_errors [OF True] b have "errors r = None" by blast
    then show ?thesis using b by (simp add: errors_of_def)
  next
    case False
    then have "fst (signup D formData w) = Returns (validation_failed ?iss)"
      by (simp add: signup_def mockDelay_def Let_def)
    then have r: "r = validation_failed ?iss" using b by simp
    have "errors_of (validation_failed ?iss) k
            = (if messages_at k ?iss = [] then None else Some (messages_at k ?iss))"
      by (simp add: errors_of_def validation_failed_def map_of_fieldErrors)
    then have "ms = messages_at k ?iss" using b unfolding r by (simp split: if_splits)
    then have "''Passwords don't match'' \<in> set (messages_at k ?iss)" using b by simp
    then show ?thesis by (rule mismatch_only_on_confirmPassword)
  qed
qed

theorem signup_mismatch_on_confirmPassword_witness:
  "signup fixture_deps (form_of ''a@b.com'' ''secret1'' ''secret2'') fixture_world
     = (Returns \<lparr>success = False, message = ''Validation failed'',
                 errors = Some [(''confirmPassword'', [''Passwords don't match''])],
                 error = None\<rparr>, fixture_world)
   \<and> (\<exists>r. signup fixture_deps (form_of ''a@b.com'' ''secret1'' ''secret2'') fixture_world
             = (Returns r, fixture_world)
          \<and> success r = False \<and> message r = ''Validation failed''
          \<and> (\<exists>ms. errors_of r ''confirmPassword'' = Some ms \<and> ''Passwords don't match'' \<in> set ms)
          \<and> (\<forall>k ms. errors_of r k = Some ms \<and> ''Passwords don't match'' \<in> set ms
                 \<longrightarrow> k = ''confirmPassword''))"
proof -
  let ?form = "form_of ''a@b.com'' ''secret1'' ''secret2''"
  have h: "?form ''email'' = Some (TextEntry ''a@b.com'')
      \<and> ?form ''password'' = Some (TextEntry ''secret1'')
      \<and> ?form ''confirmPassword'' = Some (TextEntry ''secret2'')
      \<and> ''secret1'' \<noteq> ''secret2''"
    by (simp add: form_of_simps)
  have v: "signup fixture_deps ?form fixture_world
     = (Returns \<lparr>success = False, message = ''Validation failed'',
                 errors = Some [(''confirmPassword'', [''Passwords don't match''])],
                 error = None\<rparr>, fixture_world)"
    by (simp add: signup_def mockDelay_def form_of_simps SignUpSchema_def z_string_def z_min_def
        z_email_def is_text_def fixture_deps_def validation_failed_def fieldErrors_def)
  note t = signup_mismatch_on_confirmPassword
      [of ?form "''a@b.com''" "''secret1''" "''secret2''" fixture_deps fixture_world]
  from t [THEN conjunct1, THEN mp, OF h] obtain r where
    r: "signup fixture_deps ?form fixture_world = (Returns r, fixture_world)"
    and f: "success r = False" "message r = ''Validation failed''"
    and m: "\<exists>ms. errors_of r ''confirmPassword'' = Some ms \<and> ''Passwords don't match'' \<in> set ms"
    by blast
  from r have "fst (signup fixture_deps ?form fixture_world) = Returns r" by simp
  with t [THEN conjunct2] have
    o: "\<forall>k ms. errors_of r k = Some ms \<and> ''Passwords don't match'' \<in> set ms
          \<longrightarrow> k = ''confirmPassword''"
    by blast
  from r f m o have "\<exists>r. signup fixture_deps ?form fixture_world = (Returns r, fixture_world)
          \<and> success r = False \<and> message r = ''Validation failed''
          \<and> (\<exists>ms. errors_of r ''confirmPassword'' = Some ms \<and> ''Passwords don't match'' \<in> set ms)
          \<and> (\<forall>k ms. errors_of r k = Some ms \<and> ''Passwords don't match'' \<in> set ms
                 \<longrightarrow> k = ''confirmPassword'')"
    by blast
  with v show ?thesis by (rule conjI)
qed

text \<open>
  The claim as it was stated, for every form whose \<^verbatim>\<open>password\<close> differs from its
  \<^verbatim>\<open>confirmPassword\<close>, is false for a form without a \<^verbatim>\<open>password\<close> entry: \<^verbatim>\<open>formData.get\<close>
  gives null, which differs from the text under \<^verbatim>\<open>confirmPassword\<close>; the parse reports the
  type error on \<^verbatim>\<open>password\<close>, the mismatch check does not run, and \<^verbatim>\<open>errors\<close> has no entry
  for \<^verbatim>\<open>confirmPassword\<close>.
\<close>

theorem signup_mismatch_absent_password_counterexample:
  "((form_of ''a@b.com'' [] ''secret1'')(''password'' := None)) ''password''
     \<noteq> ((form_of ''a@b.com'' [] ''secret1'')(''password'' := None)) ''confirmPassword''
   \<and> fst (signup fixture_deps ((form_of ''a@b.com'' [] ''secret1'')(''password'' := None)) fixture_world)
     = Returns \<lparr>success = False, message = ''Validation failed'',
                errors = Some [(''password'', [''Expected string, received null''])],
                error = None\<rparr>
   \<and> errors_of \<lparr>success = False, message = ''Validation failed'',
                errors = Some [(''password'', [''Expected string, received null''])],
                error = None\<rparr> ''confirmPassword'' = None"
  by (simp add: signup_def mockDelay_def form_of_def SignUpSchema_def z_string_def z_min_def
      z_email_def is_text_def fixture_deps_def validation_failed_def fieldErrors_def errors_of_def)

text \<open>
  C5. With a well-formed email and a \<^verbatim>\<open>confirmPassword\<close> equal to the password, a
  password of length 5 fails validation (\<^verbatim>\<open>{success: false, message: "Validation failed"}\<close>
  with an error on the \<^verbatim>\<open>password\<close> field), and a password of length 6 passes: the parse
  has no issue and the answer is not a validation failure.
\<close>

theorem signup_password_length_boundary:
  assumes "formData ''email'' = Some (TextEntry e)" and "e \<noteq> []" and "emailRegex D e"
    and "formData ''password'' = Some (TextEntry p)"
    and "formData ''confirmPassword'' = formData ''password''"
  shows "(length p = 5 \<longrightarrow>
            signup D formData w =
              (Returns \<lparr>success = False, message = ''Validation failed'',
                        errors = Some [(''password'', [''Password must be at least 6 characters''])],
                        error = None\<rparr>, w))
       \<and> (length p = 6 \<longrightarrow>
            SignUpSchema D (formData ''email'') (formData ''password'') (formData ''confirmPassword'') = []
            \<and> (\<forall>r. fst (signup D formData w) = Returns r \<longrightarrow>
                   message r \<noteq> ''Validation failed'' \<and> errors r = None))"
proof (intro conjI impI)
  have c: "formData ''confirmPassword'' = Some (TextEntry p)"
    using assms(4,5) by simp
  {
    assume five: "length p = 5"
    then have p: "p \<noteq> []" by auto
    have "SignUpSchema D (Some (TextEntry e)) (Some (TextEntry p)) (Some (TextEntry p))
            = [([''password''], ''Password must be at least 6 characters'')]"
      using assms(2,3) five p
      by (simp add: SignUpSchema_def z_string_def is_text_def z_min_def z_email_def)
    then show "signup D formData w =
              (Returns \<lparr>success = False, message = ''Validation failed'',
                        errors = Some [(''password'', [''Password must be at least 6 characters''])],
                        error = None\<rparr>, w)"
      unfolding signup_def mockDelay_def Let_def assms(1,4) c
      by (simp add: validation_failed_def fieldErrors_def)
  }
  {
    assume six: "length p = 6"
    then have p: "p \<noteq> []" by auto
    have "SignUpSchema D (Some (TextEntry e)) (Some (TextEntry p)) (Some (TextEntry p)) = []"
      using assms(2,3) six p by (simp add: SignUpSchema_text)
    then show ok: "SignUpSchema D (formData ''email'') (formData ''password'')
                     (formData ''confirmPassword'') = []"
      unfolding assms(1,4) c .
    show "\<forall>r. fst (signup D formData w) = Returns r \<longrightarrow>
                   message r \<noteq> ''Validation failed'' \<and> errors r = None"
      using signup_valid_errors [OF ok] by blast
  }
qed

theorem signup_password_length_boundary_witness:
  "signup fixture_deps (form_of ''a@b.com'' ''12345'' ''12345'') fixture_world =
      (Returns \<lparr>success = False, message = ''Validation failed'',
                errors = Some [(''password'', [''Password must be at least 6 characters''])],
                error = None\<rparr>, fixture_world)
   \<and> SignUpSchema fixture_deps (form_of ''a@b.com'' ''123456'' ''123456'' ''email'')
        (form_of ''a@b.com'' ''123456'' ''123456'' ''password'')
        (form_of ''a@b.com'' ''123456'' ''123456'' ''confirmPassword'') = []"
proof -
  have e: "''a@b.com'' \<noteq> []" and r: "emailRegex fixture_deps ''a@b.com''"
    by (simp_all add: fixture_deps_def)
  have l5: "length ''12345'' = 5" and l6: "length ''123456'' = 6" by simp_all
  note t5 = signup_password_length_boundary
      [of "form_of ''a@b.com'' ''12345'' ''12345''" "''a@b.com''" fixture_deps "''12345''"
          fixture_world, OF form_of_simps(1) e r form_of_simps(2)]
  note t6 = signup_password_length_boundary
      [of "form_of ''a@b.com'' ''123456'' ''123456''" "''a@b.com''" fixture_deps "''123456''"
          fixture_world, OF form_of_simps(1) e r form_of_simps(2)]
  have c5: "form_of ''a@b.com'' ''12345'' ''12345'' ''confirmPassword''
              = form_of ''a@b.com'' ''12345'' ''12345'' ''password''"
    unfolding form_of_simps ..
  have c6: "form_of ''a@b.com'' ''123456'' ''123456'' ''confirmPassword''
              = form_of ''a@b.com'' ''123456'' ''123456'' ''password''"
    unfolding form_of_simps ..
  from t5 [OF c5, THEN conjunct1, THEN mp, OF l5]
       t6 [OF c6, THEN conjunct2, THEN mp, OF l6, THEN conjunct1]
  show ?thesis by (rule conjI)
qed

text \<open>
  C6. \<^verbatim>\<open>signout\<close> calls \<^verbatim>\<open>redirect('/signin')\<close> on every path, whether the destroy of the
  session succeeds or fails, and an error of the destroy is logged. The \<^verbatim>\<open>catch\<close> block
  throws that error again, but the \<^verbatim>\<open>redirect\<close> in the \<^verbatim>\<open>finally\<close> block throws after it
  and replaces it: with a session store that rejects the destroy, the caller of
  \<^verbatim>\<open>signout\<close> receives \<^verbatim>\<open>NEXT_REDIRECT\<close> and the error of the session store is lost.
\<close>

theorem signout_destroy_error_masked:
  "redirects (snd (signout w)) = redirects w @ [''/signin'']
   \<and> fst (signout w) = Throws (Error ''NEXT_REDIRECT'')
   \<and> fst (deleteSession (fixture_world\<lparr>session_fault := Some (Error ''session store down'')\<rparr>))
     = Throws (Error ''session store down'')
   \<and> console (snd (signout (fixture_world\<lparr>session_fault := Some (Error ''session store down'')\<rparr>)))
     = [ConsoleError [Thrown (Error ''session store down'')]]
   \<and> redirects (snd (signout (fixture_world\<lparr>session_fault := Some (Error ''session store down'')\<rparr>)))
     = [''/signin'']
   \<and> fst (signout (fixture_world\<lparr>session_fault := Some (Error ''session store down'')\<rparr>))
     = Throws (Error ''NEXT_REDIRECT'')
   \<and> fst (signout (fixture_world\<lparr>session_fault := Some (Error ''session store down'')\<rparr>))
     \<noteq> Throws (Error ''session store down'')"
proof -
  have g: "redirects (snd (signout w)) = redirects w @ [''/signin'']
             \<and> fst (signout w) = Throws (Error ''NEXT_REDIRECT'')"
    by (simp add: signout_def deleteSession_def redirect_def console_error_def
        split: option.splits)
  have c: "fst (deleteSession (fixture_world\<lparr>session_fault := Some (Error ''session store down'')\<rparr>))
     = Throws (Error ''session store down'')
   \<and> console (snd (signout (fixture_world\<lparr>session_fault := Some (Error ''session store down'')\<rparr>)))
     = [ConsoleError [Thrown (Error ''session store down'')]]
   \<and> redirects (snd (signout (fixture_world\<lparr>session_fault := Some (Error ''session store down'')\<rparr>)))
     = [''/signin'']
   \<and> fst (signout (fixture_world\<lparr>session_fault := Some (Error ''session store down'')\<rparr>))
     = Throws (Error ''NEXT_REDIRECT'')
   \<and> fst (signout (fixture_world\<lparr>session_fault := Some (Error ''session store down'')\<rparr>))
     \<noteq> Throws (Error ''session store down'')"
    by (simp add: signout_def deleteSession_def redirect_def console_error_def fixture_world_def)
  from g c show ?thesis by (intro conjI) simp_all
qed

text \<open>
  C7. \<^verbatim>\<open>getCurrentUser()\<close> returns none when no session resolves; when a session resolves
  and the query for the user fails, it logs the failure and returns none; and in every
  state it returns, it never throws.
\<close>

theorem getCurrentUser_never_throws:
  "(getSession w = None \<longrightarrow> getCurrentUser w = (Returns None, w))
   \<and> (getSession w \<noteq> None \<and> db_fault w = Some e
        \<longrightarrow> getCurrentUser w = (Returns None, console_error [Thrown e] w))
   \<and> (\<exists>v. fst (getCurrentUser w) = Returns v)"
  by (auto simp add: getCurrentUser_def select_users_where_id_def split: option.splits)

theorem getCurrentUser_never_throws_witness:
  "getCurrentUser fixture_world = (Returns None, fixture_world)
   \<and> getCurrentUser (fixture_world\<lparr>db_fault := Some (Error ''connection refused''),
        session_slot := Some \<lparr>userId = 1, issuedAt = 900, expiresAt = 4500\<rparr>\<rparr>)
     = (Returns None,
        console_error [Thrown (Error ''connection refused'')]
          (fixture_world\<lparr>db_fault := Some (Error ''connection refused''),
             session_slot := Some \<lparr>userId = 1, issuedAt = 900, expiresAt = 4500\<rparr>\<rparr>))"
  using getCurrentUser_never_throws [of fixture_world]
        getCurrentUser_never_throws
          [of "fixture_world\<lparr>db_fault := Some (Error ''connection refused''),
                 session_slot := Some \<lparr>userId = 1, issuedAt = 900, expiresAt = 4500\<rparr>\<rparr>"
              "Error ''connection refused''"]
  by (simp add: fixture_world_def getSession_def)

text \<open>
  C8. The envelope of \<^verbatim>\<open>signup\<close> for an unexpected failure after validation. With a valid
  form and a data store that rejects the insert, the \<^verbatim>\<open>catch\<close> block answers with the
  message \<^verbatim>\<open>An error occured while creating your account\<close>, spelled with one r, which is
  not the message \<^verbatim>\<open>An error occurred while creating your account\<close>.
\<close>

theorem signup_catch_message_spelling:
  "fst (signup fixture_deps (form_of ''new@b.com'' ''secret1'' ''secret1'')
          (fixture_world\<lparr>db_fault := Some (Error ''connection refused'')\<rparr>))
     = Returns \<lparr>success = False, message = ''An error occured while creating your account'',
                errors = None, error = Some ''Failed to create account''\<rparr>
   \<and> fst (signup fixture_deps (form_of ''new@b.com'' ''secret1'' ''secret1'')
          (fixture_world\<lparr>db_fault := Some (Error ''connection refused'')\<rparr>))
     \<noteq> Returns \<lparr>success = False, message = ''An error occurred while creating your account'',
                errors = None, error = Some ''Failed to create account''\<rparr>"
  by (simp add: signup_def mockDelay_def SignUpSchema_text as_string_text form_of_simps fixture_deps_def
      fixture_world_def createUser_def signup_catch_def)

text \<open>
  C9. When the query succeeds, \<^verbatim>\<open>getIssues()\<close> returns the stored issues, no more and no
  fewer, ordered by \<^verbatim>\<open>createdAt\<close> with the newest first, each joined with the stored user
  that its \<^verbatim>\<open>userId\<close> refers to (with none only if no stored user has that id).
\<close>

theorem getIssues_joined_newest_first:
  assumes "db_fault w = None"
  shows "\<exists>result. getIssues w = (Returns result, w)
         \<and> mset (map row_issue result) = mset (issues w)
         \<and> sorted_wrt (\<lambda>a b. issue_createdAt (row_issue b) \<le> issue_createdAt (row_issue a)) result
         \<and> (\<forall>r \<in> set result.
               (case row_user r of
                  Some u \<Rightarrow> u \<in> set (users w) \<and> user_id u = issue_userId (row_issue r)
                | None \<Rightarrow> issue_userId (row_issue r) \<notin> set (map user_id (users w))))"
proof -
  let ?sorted = "sort_key (\<lambda>i. - int (issue_createdAt i)) (issues w)"
  let ?result = "map (with_user (users w)) ?sorted"
  have run: "getIssues w = (Returns ?result, w)"
    using assms by (simp add: getIssues_def issues_findMany_with_user_desc_createdAt_def)
  have proj: "map row_issue ?result = ?sorted"
    by (simp add: with_user_def comp_def)
  have perm: "mset (map row_issue ?result) = mset (issues w)"
    unfolding proj by simp
  have ord: "sorted_wrt (\<lambda>a b. issue_createdAt (row_issue b) \<le> issue_createdAt (row_issue a)) ?result"
    using sorted_desc_sort_key [of issue_createdAt "issues w"]
    by (simp add: sorted_wrt_map with_user_def)
  have own: "\<forall>r \<in> set ?result.
               (case row_user r of
                  Some u \<Rightarrow> u \<in> set (users w) \<and> user_id u = issue_userId (row_issue r)
                | None \<Rightarrow> issue_userId (row_issue r) \<notin> set (map user_id (users w)))"
  proof
    fix r
    assume "r \<in> set ?result"
    then obtain i where r: "r = with_user (users w) i" by auto
    show "case row_user r of
            Some u \<Rightarrow> u \<in> set (users w) \<and> user_id u = issue_userId (row_issue r)
          | None \<Rightarrow> issue_userId (row_issue r) \<notin> set (map user_id (users w))"
    proof (cases "find (\<lambda>u. user_id u = issue_userId i) (users w)")
      case None
      then show ?thesis using find_owner_None [OF None] by (simp add: r with_user_def)
    next
      case (Some u)
      then show ?thesis using find_owner_Some [OF Some] by (simp add: r with_user_def)
    qed
  qed
  show ?thesis
  proof (intro exI conjI)
    show "getIssues w = (Returns ?result, w)" by (rule run)
    show "mset (map row_issue ?result) = mset (issues w)" by (rule perm)
    show "sorted_wrt (\<lambda>a b. issue_createdAt (row_issue b) \<le> issue_createdAt (row_issue a)) ?result"
      by (rule ord)
    show "\<forall>r \<in> set ?result.
               (case row_user r of
                  Some u \<Rightarrow> u \<in> set (users w) \<and> user_id u = issue_userId (row_issue r)
                | None \<Rightarrow> issue_userId (row_issue r) \<notin> set (map user_id (users w)))"
      by (rule own)
  qed
qed

theorem getIssues_joined_newest_first_witness:
  "db_fault fixture_world = None
   \<and> fst (getIssues fixture_world) =
       Returns
        [\<lparr>row_issue = \<lparr>issue_id = 2, issue_createdAt = 30, issue_userId = 2\<rparr>,
          row_user = Some \<lparr>user_id = 2, user_email = ''c@d.org'', user_password = ''h:hunter22''\<rparr>\<rparr>,
         \<lparr>row_issue = \<lparr>issue_id = 3, issue_createdAt = 20, issue_userId = 1\<rparr>,
          row_user = Some \<lparr>user_id = 1, user_email = ''a@b.com'', user_password = ''h:secret1''\<rparr>\<rparr>,
         \<lparr>row_issue = \<lparr>issue_id = 1, issue_createdAt = 10, issue_userId = 1\<rparr>,
          row_user = Some \<lparr>user_id = 1, user_email = ''a@b.com'', user_password = ''h:secret1''\<rparr>\<rparr>]
   \<and> (\<exists>result. getIssues fixture_world = (Returns result, fixture_world)
         \<and> mset (map row_issue result) = mset (issues fixture_world)
         \<and> sorted_wrt (\<lambda>a b. issue_createdAt (row_issue b) \<le> issue_createdAt (row_issue a)) result
         \<and> (\<forall>r \<in> set result.
               (case row_user r of
                  Some u \<Rightarrow> u \<in> set (users fixture_world) \<and> user_id u = issue_userId (row_issue r)
                | None \<Rightarrow> issue_userId (row_issue r) \<notin> set (map user_id (users fixture_world)))))"
proof -
  have h: "db_fault fixture_world = None" by (simp add: fixture_world_def)
  have v: "fst (getIssues fixture_world) =
       Returns
        [\<lparr>row_issue = \<lparr>issue_id = 2, issue_createdAt = 30, issue_userId = 2\<rparr>,
          row_user = Some \<lparr>user_id = 2, user_email = ''c@d.org'', user_password = ''h:hunter22''\<rparr>\<rparr>,
         \<lparr>row_issue = \<lparr>issue_id = 3, issue_createdAt = 20, issue_userId = 1\<rparr>,
          row_user = Some \<lparr>user_id = 1, user_email = ''a@b.com'', user_password = ''h:secret1''\<rparr>\<rparr>,
         \<lparr>row_issue = \<lparr>issue_id = 1, issue_createdAt = 10, issue_userId = 1\<rparr>,
          row_user = Some \<lparr>user_id = 1, user_email = ''a@b.com'', user_password = ''h:secret1''\<rparr>\<rparr>]"
    by (simp add: getIssues_def issues_findMany_with_user_desc_createdAt_def fixture_world_def
        with_user_def)
  show ?thesis using h v getIssues_joined_newest_first [OF h] by simp
qed

text \<open>
  C10. When the data store fails, \<^verbatim>\<open>getIssues()\<close> logs the failure and throws a new error
  with the message \<^verbatim>\<open>Failed to fetch issues\<close>, where \<^verbatim>\<open>getUserByEmail\<close> and
  \<^verbatim>\<open>getCurrentUser\<close> log the failure and return null.
\<close>

theorem getIssues_throws_where_lookups_return_null:
  assumes "db_fault w = Some e"
  shows "getIssues w = (Throws (Error ''Failed to fetch issues''), console_error [Thrown e] w)
       \<and> getUserByEmail email w = (Returns None, console_error [Thrown e] w)
       \<and> (getSession w \<noteq> None \<longrightarrow> getCurrentUser w = (Returns None, console_error [Thrown e] w))"
  using assms
  by (auto simp add: getIssues_def issues_findMany_with_user_desc_createdAt_def getUserByEmail_def
      users_findFirst_where_email_def getCurrentUser_def select_users_where_id_def)

theorem getIssues_throws_where_lookups_return_null_witness:
  "getIssues (fixture_world\<lparr>db_fault := Some (Error ''connection refused''),
        session_slot := Some \<lparr>userId = 1, issuedAt = 900, expiresAt = 4500\<rparr>\<rparr>)
     = (Throws (Error ''Failed to fetch issues''),
        console_error [Thrown (Error ''connection refused'')]
          (fixture_world\<lparr>db_fault := Some (Error ''connection refused''),
             session_slot := Some \<lparr>userId = 1, issuedAt = 900, expiresAt = 4500\<rparr>\<rparr>))
   \<and> getUserByEmail ''a@b.com'' (fixture_world\<lparr>db_fault := Some (Error ''connection refused''),
        session_slot := Some \<lparr>userId = 1, issuedAt = 900, expiresAt = 4500\<rparr>\<rparr>)
     = (Returns None,
        console_error [Thrown (Error ''connection refused'')]
          (fixture_world\<lparr>db_fault := Some (Error ''connection refused''),
             session_slot := Some \<lparr>userId = 1, issuedAt = 900, expiresAt = 4500\<rparr>\<rparr>))
   \<and> getCurrentUser (fixture_world\<lparr>db_fault := Some (Error ''connection refused''),
        session_slot := Some \<lparr>userId = 1, issuedAt = 900, expiresAt = 4500\<rparr>\<rparr>)
     = (Returns None,
        console_error [Thrown (Error ''connection refused'')]
          (fixture_world\<lparr>db_fault := Some (Error ''connection refused''),
             session_slot := Some \<lparr>userId = 1, issuedAt = 900, expiresAt = 4500\<rparr>\<rparr>))"
  using getIssues_throws_where_lookups_return_null
          [of "fixture_world\<lparr>db_fault := Some (Error ''connection refused''),
                 session_slot := Some \<lparr>userId = 1, issuedAt = 900, expiresAt = 4500\<rparr>\<rparr>"
              "Error ''connection refused''" "''a@b.com''"]
  by (simp add: fixture_world_def getSession_def)

end
